theory Spec2Isabelle
  imports Complex_Main "HOL-Library.AList"
begin

section \<open>Pagination metadata (utils/helpers.ts)\<close>

text \<open>
  The value returned by \<open>getPaginationMeta\<close>: an object with exactly the six fields
  \<open>total\<close>, \<open>page\<close>, \<open>limit\<close>, \<open>totalPages\<close>, \<open>hasNextPage\<close> and \<open>hasPrevPage\<close>.
\<close>

record PaginationMeta =
  total :: int
  page :: int
  limit :: int
  totalPages :: int
  hasNextPage :: bool
  hasPrevPage :: bool

text \<open>
  \<open>getPaginationMeta\<close> as the source writes it. The arguments are JavaScript numbers holding
  integers; \<open>total / limit\<close> is the division of numbers (here: of reals) and \<open>Math.ceil\<close> is
  the ceiling. The function reads nothing but its arguments.
\<close>

definition getPaginationMeta :: "int \<Rightarrow> int \<Rightarrow> int \<Rightarrow> PaginationMeta" where
  "getPaginationMeta total' page' limit' =
     (let totalPages' = \<lceil>real_of_int total' / real_of_int limit'\<rceil>;
          hasNextPage' = (page' < totalPages');
          hasPrevPage' = (page' > 1)
      in \<lparr> total = total', page = page', limit = limit', totalPages = totalPages',
           hasNextPage = hasNextPage', hasPrevPage = hasPrevPage' \<rparr>)"

section \<open>JavaScript values\<close>

text \<open>
  The settings service works on request bodies and store documents whose shape is only known
  at run time (\<open>typeof\<close>, \<open>Array.isArray\<close>, \<open>Object.keys\<close>, object spread). Values are
  therefore modelled as JSON-like JavaScript values. An object is an association list in
  insertion order; a key is looked up at its first entry. Numbers are integers here: no claim
  depends on the arithmetic of the numbers stored in a document.
\<close>

datatype jsval =
    JUndefined
  | JNull
  | JBool bool
  | JNum int
  | JStr string
  | JArr "jsval list"
  | JObj "(string \<times> jsval) list"

type_synonym jsobject = "(string \<times> jsval) list"



text \<open>Truthiness, as \<open>!v\<close>, \<open>v && w\<close> and \<open>v || w\<close> test it.\<close>

fun truthy :: "jsval \<Rightarrow> bool" where
  "truthy JUndefined = False"
| "truthy JNull = False"
| "truthy (JBool b) = b"
| "truthy (JNum n) = (n \<noteq> 0)"
| "truthy (JStr s) = (s \<noteq> [])"
| "truthy (JArr xs) = True"
| "truthy (JObj kvs) = True"

text \<open>\<open>obj[key]\<close> on an object: a missing key reads as \<open>undefined\<close>.\<close>

definition getProp :: "jsobject \<Rightarrow> string \<Rightarrow> jsval" where
  "getProp obj key = (case map_of obj key of None \<Rightarrow> JUndefined | Some v \<Rightarrow> v)"

text \<open>\<open>obj[key] = v\<close>: an existing key keeps its place, a new key goes to the end.\<close>

definition setProp :: "jsobject \<Rightarrow> string \<Rightarrow> jsval \<Rightarrow> jsobject" where
  "setProp obj key v = AList.update key v obj"

text \<open>\<open>Object.keys(obj)\<close>: every own key once.\<close>

definition objectKeys :: "jsobject \<Rightarrow> string list" where
  "objectKeys obj = remdups (map fst obj)"

text \<open>The decimal text of an array index, the key under which spread copies an element.\<close>

fun string_of_nat :: "nat \<Rightarrow> string" where
  "string_of_nat n =
     (if n < 10 then [''0123456789'' ! n]
      else string_of_nat (n div 10) @ [''0123456789'' ! (n mod 10)])"

definition numberKey :: "int \<Rightarrow> string" where
  "numberKey i = (if i < 0 then CHR ''-'' # string_of_nat (nat (- i)) else string_of_nat (nat i))"




text \<open>
  \<open>v.name\<close> for a fixed property name that is not an index (\<open>fileId\<close>, \<open>image\<close>): only an
  object can hold it. \<open>v?.name\<close> is the same read; on null and undefined it yields
  \<open>undefined\<close> as well, where the plain read would throw.
\<close>

fun jsGet :: "jsval \<Rightarrow> string \<Rightarrow> jsval" where
  "jsGet (JObj kvs) key = getProp kvs key"
| "jsGet v key = JUndefined"

text \<open>\<open>v[i]\<close> for a number \<open>i\<close>: an array element, an object's property under the key's
  decimal text, a character of a string; \<open>undefined\<close> for everything else and out of range.\<close>

fun jsIndex :: "jsval \<Rightarrow> int \<Rightarrow> jsval" where
  "jsIndex (JArr xs) i = (if 0 \<le> i \<and> i < int (length xs) then xs ! nat i else JUndefined)"
| "jsIndex (JObj kvs) i = getProp kvs (numberKey i)"
| "jsIndex (JStr s) i = (if 0 \<le> i \<and> i < int (length s) then JStr [s ! nat i] else JUndefined)"
| "jsIndex v i = JUndefined"

section \<open>Errors, the object store and the persistent store\<close>

text \<open>
  \<open>AppError message statusCode\<close> is the service's own error; \<open>TypeError\<close> is what the
  JavaScript run time throws when a method is missing or a property is written on a
  primitive value.
\<close>

datatype error = AppError string nat | TypeError

text \<open>An uploaded file. An absent \<open>name\<close> or \<open>mimetype\<close> is the empty string, an absent
  \<open>size\<close> is 0 (all of them falsy), an absent \<open>data\<close> buffer is \<open>None\<close>.\<close>

record UploadedFile =
  file_name :: string
  mimetype :: string
  file_size :: nat
  file_data :: "string option"

text \<open>What a controller hands over as \<open>req.files.image\<close>: nothing, several files, or one.\<close>

datatype fileArg = NoFile | FileArray "UploadedFile list" | OneFile UploadedFile

record ImageUploadResult =
  url :: string
  fileId :: string

text \<open>An error thrown by the Cloudinary client: its \<open>message\<close> (empty when absent) and its
  \<open>http_code\<close> (0 when absent).\<close>

datatype cloudError = CloudError string nat

record Admin =
  admin_id :: string
  name :: string
  email :: string
  password :: string
  active :: bool
  lastLoginAt :: "nat option"

text \<open>
  Everything the services call but do not define: the configured upload limit, the
  Cloudinary client (\<open>upload\<close> yields \<open>secure_url\<close> and \<open>public_id\<close> or throws; \<open>destroy\<close>
  returns or throws an error with the given message), the store's fresh document ids,
  \<open>bcrypt.compare\<close> and \<open>jwt.sign\<close>.
\<close>

record env =
  maxFileSize :: nat
  upload :: "UploadedFile \<Rightarrow> string \<Rightarrow> cloudError + (string \<times> string)"
  destroy :: "jsval \<Rightarrow> string option"
  objectId :: "nat \<Rightarrow> string"
  bcryptCompare :: "string \<Rightarrow> string \<Rightarrow> bool"
  jwtSign :: "string \<Rightarrow> string"

text \<open>Effects outside the store, in the order in which they happen.\<close>

datatype effect =
    CloudUpload UploadedFile string
  | CloudDestroy jsval
  | ConsoleError string
  | ConsoleLog string

text \<open>
  The state the services read and write: the SiteSettings collection in insertion order
  (documents are never removed, so a document's position identifies it), the Admin
  collection, the trace of outside effects and the clock that \<open>new Date()\<close> reads.
  Store calls are taken to succeed: schema validation and I/O failures of the database are
  outside the model, and so are the \<open>createdAt\<close>/\<open>updatedAt\<close> timestamps.
\<close>

record world =
  siteSettings :: "jsobject list"
  admins :: "Admin list"
  effects :: "effect list"
  now :: nat

type_synonym 'a outcome = "(error + 'a) \<times> world"

subsection \<open>ImageService\<close>

definition allowedTypes :: "string list" where
  "allowedTypes = [''image/jpeg'', ''image/jpg'', ''image/png'', ''image/webp'']"

text \<open>
  \<open>uploadImage\<close>: the checks inside the \<open>try\<close> in their order, then the upload. Whatever is
  thrown is logged by the \<open>catch\<close>; an \<open>AppError\<close> is thrown on, any other error is wrapped.
  (The text of the size limit inside the "too large" message is left out.)
\<close>

definition uploadImage :: "env \<Rightarrow> UploadedFile \<Rightarrow> string \<Rightarrow> world \<Rightarrow> ImageUploadResult outcome" where
  "uploadImage e file folder w =
     (let attempt =
        (if file_name file = [] \<or> mimetype file = [] \<or> file_size file = 0
           then Inl (Inl (AppError ''Invalid file information'' 400))
         else if mimetype file \<notin> set allowedTypes
           then Inl (Inl (AppError ''Only JPEG, PNG, and WebP images are allowed'' 400))
         else if file_size file > maxFileSize e
           then Inl (Inl (AppError ''File size too large'' 400))
         else if file_data file = None
           then Inl (Inl (AppError ''File data not available'' 500))
         else (case upload e file folder of
                 Inl ce \<Rightarrow> Inl (Inr ce)
               | Inr (secure_url, public_id) \<Rightarrow> Inr \<lparr> url = secure_url, fileId = public_id \<rparr>))
      in case attempt of
           Inr r \<Rightarrow> (Inr r, w\<lparr> effects := effects w @ [CloudUpload file folder] \<rparr>)
         | Inl thrown \<Rightarrow>
             (let w' = w\<lparr> effects := effects w @ [ConsoleError ''Cloudinary upload error details:''] \<rparr>
              in case thrown of
                   Inl appError \<Rightarrow> (Inl appError, w')
                 | Inr (CloudError message http_code) \<Rightarrow>
                     (Inl (AppError
                        (if http_code = 401
                           then ''Cloudinary authentication failed. Please check your Cloudinary credentials.''
                         else if message \<noteq> [] then message else ''Image upload failed'')
                        (if http_code \<noteq> 0 then http_code else 500)), w')))"

text \<open>\<open>deleteImage\<close> never throws: a failed \<open>destroy\<close> is caught and only written to the
  console.\<close>

definition deleteImage :: "env \<Rightarrow> jsval \<Rightarrow> world \<Rightarrow> world" where
  "deleteImage e fileId' w =
     (if \<not> truthy fileId' then w
      else case destroy e fileId' of
             None \<Rightarrow> w\<lparr> effects := effects w @ [CloudDestroy fileId'] \<rparr>
           | Some message \<Rightarrow>
               w\<lparr> effects := effects w @
                    [ConsoleError (''Failed to delete image from Cloudinary: '' @ message)] \<rparr>)"

definition validateImageFile :: "fileArg \<Rightarrow> error + UploadedFile" where
  "validateImageFile file =
     (case file of
        NoFile \<Rightarrow> Inl (AppError ''No file uploaded'' 400)
      | FileArray fs \<Rightarrow> Inl (AppError ''Multiple files not allowed'' 400)
      | OneFile f \<Rightarrow> Inr f)"

definition imageValue :: "ImageUploadResult \<Rightarrow> jsval" where
  "imageValue r = JObj [(''url'', JStr (url r)), (''fileId'', JStr (fileId r))]"

subsection \<open>The SiteSettings model\<close>

text \<open>The query \<open>{ isActive: true }\<close> matches a document whose field is the boolean true.\<close>

definition isActiveDoc :: "jsobject \<Rightarrow> bool" where
  "isActiveDoc d = (getProp d ''isActive'' = JBool True)"

fun findIndex :: "('a \<Rightarrow> bool) \<Rightarrow> 'a list \<Rightarrow> nat option" where
  "findIndex P [] = None"
| "findIndex P (x # xs) = (if P x then Some 0 else map_option Suc (findIndex P xs))"

text \<open>\<open>SiteSettings.findOne({ isActive: true })\<close>: the first match, with its position.\<close>

definition findOneActive :: "jsobject list \<Rightarrow> (nat \<times> jsobject) option" where
  "findOneActive db = map_option (\<lambda>i. (i, db ! i)) (findIndex isActiveDoc db)"

text \<open>\<open>SiteSettings.findById(id)\<close>, for a well-formed id (the route checks the format).\<close>

definition findById :: "string \<Rightarrow> jsobject list \<Rightarrow> jsobject option" where
  "findById settingsId db = List.find (\<lambda>d. getProp d ''_id'' = JStr settingsId) db"

definition deactivate :: "jsobject \<Rightarrow> jsobject" where
  "deactivate d = setProp d ''isActive'' (JBool False)"

text \<open>
  The \<open>pre('save')\<close> hook: a new document that is active sets \<open>isActive\<close> to false on every
  stored document with another \<open>_id\<close>.
\<close>

definition preSave :: "bool \<Rightarrow> jsobject \<Rightarrow> jsobject list \<Rightarrow> jsobject list" where
  "preSave isNew this db =
     (if truthy (getProp this ''isActive'') \<and> isNew
      then map (\<lambda>d. if getProp d ''_id'' \<noteq> getProp this ''_id'' then deactivate d else d) db
      else db)"

text \<open>\<open>settings.save()\<close> for the document loaded from position \<open>i\<close>.\<close>

definition saveDoc :: "nat \<Rightarrow> jsobject \<Rightarrow> jsobject list \<Rightarrow> jsobject list" where
  "saveDoc i this db = (preSave False this db)[i := this]"

text \<open>
  \<open>SiteSettings.create(props)\<close>: a fresh \<open>_id\<close>, the schema default \<open>isActive = true\<close> when
  the field is not given, the hook, the insert. (The other schema defaults are not
  modelled.)
\<close>

definition createDoc :: "env \<Rightarrow> jsobject \<Rightarrow> jsobject list \<Rightarrow> jsobject \<times> jsobject list" where
  "createDoc e props db =
     (let d0 = setProp props ''_id'' (JStr (objectId e (length db)));
          d = (if getProp d0 ''isActive'' = JUndefined
               then setProp d0 ''isActive'' (JBool True) else d0)
      in (d, preSave True d db @ [d]))"

text \<open>
  \<open>populate('updatedBy', 'name email')\<close> on the returned document: the reference is
  replaced by the admin's id, name and email, or by null when no admin answers (the Admin
  model's find hook hides inactive admins).
\<close>

definition populate :: "Admin list \<Rightarrow> jsobject \<Rightarrow> jsobject" where
  "populate as d =
     setProp d ''updatedBy''
       (case List.find (\<lambda>a. JStr (admin_id a) = getProp d ''updatedBy'' \<and> active a) as of
          None \<Rightarrow> JNull
        | Some a \<Rightarrow> JObj [(''_id'', JStr (admin_id a)), (''name'', JStr (name a)),
                          (''email'', JStr (email a))])"

text \<open>The common tail of every settings mutation:
  \<open>settings.updatedBy = adminId; await settings.save(); await settings.populate(...); return settings\<close>.\<close>

definition saveAndPopulate :: "string \<Rightarrow> nat \<Rightarrow> jsobject \<Rightarrow> world \<Rightarrow> jsobject outcome" where
  "saveAndPopulate adminId i settings w =
     (let settings' = setProp settings ''updatedBy'' (JStr adminId);
          w' = w\<lparr> siteSettings := saveDoc i settings' (siteSettings w) \<rparr>
      in (Inr (populate (admins w') settings'), w'))"

section \<open>AdminService: site settings\<close>

subsection \<open>updateSiteSettings\<close>







subsection \<open>restoreSiteSettings\<close>

definition restoreSiteSettings :: "env \<Rightarrow> string \<Rightarrow> string \<Rightarrow> world \<Rightarrow> jsobject outcome" where
  "restoreSiteSettings e adminId settingsId w =
     (case findById settingsId (siteSettings w) of
        None \<Rightarrow> (Inl (AppError ''Settings version not found'' 404), w)
      | Some previousSettings \<Rightarrow>
          (let db1 = map deactivate (siteSettings w);
               (restoredSettings, db2) =
                 createDoc e
                   [(''backgroundImage'', getProp previousSettings ''backgroundImage''),
                    (''heroSectionText'', getProp previousSettings ''heroSectionText''),
                    (''aboutSectionText'', getProp previousSettings ''aboutSectionText''),
                    (''contactInfo'', getProp previousSettings ''contactInfo''),
                    (''socialMedia'', getProp previousSettings ''socialMedia''),
                    (''updatedBy'', JStr adminId),
                    (''isActive'', JBool True)]
                   db1;
               w' = w\<lparr> siteSettings := db2 \<rparr>
           in (Inr (populate (admins w') restoredSettings), w')))"

subsection \<open>Image fields\<close>

text \<open>
  \<open>updateBackgroundImage\<close>, \<open>updateAboutSectionImage\<close> and \<open>updateMenuMainImage\<close> are the
  same text up to the field and the upload folder: validate the file, load the active
  settings, delete the previous asset if the field has a \<open>fileId\<close>, upload, write
  \<open>{url, fileId}\<close>, save.
\<close>

definition updateImageField ::
  "string \<Rightarrow> string \<Rightarrow> env \<Rightarrow> string \<Rightarrow> fileArg \<Rightarrow> world \<Rightarrow> jsobject outcome" where
  "updateImageField field folder e adminId file w =
     (case validateImageFile file of
        Inl err \<Rightarrow> (Inl err, w)
      | Inr f \<Rightarrow>
          (case findOneActive (siteSettings w) of
             None \<Rightarrow> (Inl (AppError ''Site settings not found'' 404), w)
           | Some (i, settings) \<Rightarrow>
               (let previous = jsGet (getProp settings field) ''fileId'';
                    w1 = (if truthy previous then deleteImage e previous w else w)
                in case uploadImage e f folder w1 of
                     (Inl err, w2) \<Rightarrow> (Inl err, w2)
                   | (Inr uploadResult, w2) \<Rightarrow>
                       saveAndPopulate adminId i
                         (setProp settings field (imageValue uploadResult)) w2)))"

definition updateBackgroundImage :: "env \<Rightarrow> string \<Rightarrow> fileArg \<Rightarrow> world \<Rightarrow> jsobject outcome" where
  "updateBackgroundImage = updateImageField ''backgroundImage'' ''caterine/backgrounds''"







subsection \<open>Menu child items\<close>

text \<open>
  \<open>container[i].key = v\<close>, giving the container afterwards. The element is written when it
  is an object. A named property put on an element that is itself an array is not part of
  what the store keeps, so the container stays as it is; on any other element (a primitive
  value) the assignment throws.
\<close>

definition setItemProp :: "jsval \<Rightarrow> int \<Rightarrow> string \<Rightarrow> jsval \<Rightarrow> error + jsval" where
  "setItemProp container i key v =
     (case jsIndex container i of
        JObj item \<Rightarrow>
          (case container of
             JArr xs \<Rightarrow> Inr (JArr (xs[nat i := JObj (setProp item key v)]))
           | JObj kvs \<Rightarrow> Inr (JObj (setProp kvs (numberKey i) (JObj (setProp item key v))))
           | _ \<Rightarrow> Inr container)
      | JArr ys \<Rightarrow> Inr container
      | _ \<Rightarrow> Inl TypeError)"

text \<open>\<open>if (v !== undefined) container[i].key = v\<close>, after earlier assignments that may
  have thrown.\<close>

definition setItemPropIfDefined ::
  "int \<Rightarrow> string \<Rightarrow> jsval \<Rightarrow> error + jsval \<Rightarrow> error + jsval" where
  "setItemPropIfDefined i key v r =
     (case r of
        Inl err \<Rightarrow> Inl err
      | Inr container \<Rightarrow> if v \<noteq> JUndefined then setItemProp container i key v else Inr container)"

text \<open>The guard shared by the functions that address an item:
  \<open>!settings.menuChildWithImage || !settings.menuChildWithImage[itemIndex]\<close>.\<close>

definition menuItemMissing :: "jsobject \<Rightarrow> int \<Rightarrow> bool" where
  "menuItemMissing settings itemIndex =
     (\<not> truthy (getProp settings ''menuChildWithImage'')
      \<or> \<not> truthy (jsIndex (getProp settings ''menuChildWithImage'') itemIndex))"

text \<open>\<open>settings.menuChildWithImage[itemIndex].image?.fileId\<close>.\<close>

definition itemFileId :: "jsobject \<Rightarrow> int \<Rightarrow> jsval" where
  "itemFileId settings itemIndex =
     jsGet (jsGet (jsIndex (getProp settings ''menuChildWithImage'') itemIndex) ''image'') ''fileId''"


definition updateMenuChildItem ::
  "env \<Rightarrow> string \<Rightarrow> int \<Rightarrow> jsobject \<Rightarrow> world \<Rightarrow> jsobject outcome" where
  "updateMenuChildItem e adminId itemIndex itemData w =
     (case findOneActive (siteSettings w) of
        None \<Rightarrow> (Inl (AppError ''Site settings not found'' 404), w)
      | Some (i, settings) \<Rightarrow>
          if menuItemMissing settings itemIndex
          then (Inl (AppError ''Menu item not found'' 404), w)
          else
            (let w1 = (if truthy (getProp itemData ''image'') \<and> truthy (itemFileId settings itemIndex)
                       then deleteImage e (itemFileId settings itemIndex) w else w)
             in case setItemPropIfDefined itemIndex ''image'' (getProp itemData ''image'')
                    (setItemPropIfDefined itemIndex ''price'' (getProp itemData ''price'')
                      (setItemPropIfDefined itemIndex ''content'' (getProp itemData ''content'')
                        (setItemPropIfDefined itemIndex ''title'' (getProp itemData ''title'')
                          (Inr (getProp settings ''menuChildWithImage''))))) of
                  Inl err \<Rightarrow> (Inl err, w1)
                | Inr menu \<Rightarrow>
                    saveAndPopulate adminId i (setProp settings ''menuChildWithImage'' menu) w1))"



text \<open>\<open>splice(itemIndex, 1)\<close> exists on arrays only; it is reached with an index that the
  guard has found in range.\<close>

definition deleteMenuChildItem :: "env \<Rightarrow> string \<Rightarrow> int \<Rightarrow> world \<Rightarrow> jsobject outcome" where
  "deleteMenuChildItem e adminId itemIndex w =
     (case findOneActive (siteSettings w) of
        None \<Rightarrow> (Inl (AppError ''Site settings not found'' 404), w)
      | Some (i, settings) \<Rightarrow>
          if menuItemMissing settings itemIndex
          then (Inl (AppError ''Menu item not found'' 404), w)
          else
            (let w1 = (if truthy (itemFileId settings itemIndex)
                       then deleteImage e (itemFileId settings itemIndex) w else w)
             in case getProp settings ''menuChildWithImage'' of
                  JArr xs \<Rightarrow>
                    saveAndPopulate adminId i
                      (setProp settings ''menuChildWithImage''
                         (JArr (take (nat itemIndex) xs @ drop (Suc (nat itemIndex)) xs))) w1
                | _ \<Rightarrow> (Inl TypeError, w1)))"

section \<open>AdminService and AdminController: login\<close>

record AdminLoginInput =
  cred_email :: string
  cred_password :: string

text \<open>
  \<open>Admin.findOne({ email, active: { $ne: false } })\<close> (the model's find hook adds the same
  condition on \<open>active\<close>), the password check, then \<open>lastLoginAt = new Date()\<close>, the save
  (without validation; the password is not modified, so it is not hashed again) and the
  token for the admin's id.
\<close>

definition loginAdmin :: "env \<Rightarrow> AdminLoginInput \<Rightarrow> world \<Rightarrow> (Admin \<times> string) outcome" where
  "loginAdmin e credentials w =
     (case findIndex (\<lambda>a. email a = cred_email credentials \<and> active a \<noteq> False) (admins w) of
        None \<Rightarrow> (Inl (AppError ''Incorrect email or password'' 401), w)
      | Some i \<Rightarrow>
          (let admin = admins w ! i in
           if \<not> bcryptCompare e (cred_password credentials) (password admin)
           then (Inl (AppError ''Incorrect email or password'' 401), w)
           else
             (let admin' = admin\<lparr> lastLoginAt := Some (now w) \<rparr>;
                  w' = w\<lparr> admins := (admins w)[i := admin'],
                          effects := effects w @ [ConsoleLog ''admin''] \<rparr>
              in (Inr (admin', jwtSign e (admin_id admin')), w'))))"

text \<open>The body of the 200 response of \<open>POST /admin/login\<close>.\<close>

record LoginResponse =
  status :: nat
  token :: string
  resp_id :: string
  resp_name :: string
  resp_email :: string
  resp_lastLoginAt :: "nat option"

text \<open>\<open>AdminController.login\<close>: an error of the service goes to the error handler as it
  is (\<open>catchAsync\<close>), a result is answered with status 200.\<close>

definition login :: "env \<Rightarrow> AdminLoginInput \<Rightarrow> world \<Rightarrow> LoginResponse outcome" where
  "login e body w =
     (case loginAdmin e body w of
        (Inl err, w') \<Rightarrow> (Inl err, w')
      | (Inr (admin, token'), w') \<Rightarrow>
          (Inr \<lparr> status = 200, token = token', resp_id = admin_id admin, resp_name = name admin,
                 resp_email = email admin, resp_lastLoginAt = lastLoginAt admin \<rparr>, w'))"

section \<open>Serial histories of settings operations\<close>






section \<open>A concrete state\<close>

text \<open>
  One environment and one state on which the theorems below are evaluated: Cloudinary
  accepts every upload and refuses every delete; there is one settings record, active,
  with a stored background asset and two menu items; there are one active and one
  deactivated admin.
\<close>

definition exampleEnv :: env where
  "exampleEnv =
     \<lparr> maxFileSize = 5242880,
       upload = (\<lambda>f folder. Inr (''https://cdn.example/'' @ folder @ ''/'' @ file_name f,
                                  folder @ ''/'' @ file_name f)),
       destroy = (\<lambda>fileId'. Some ''timeout''),
       objectId = string_of_nat,
       bcryptCompare = (\<lambda>candidate hash. hash = ''hash:'' @ candidate),
       jwtSign = (\<lambda>ident. ''header.'' @ ident @ ''.signature'') \<rparr>"

definition exampleSettings :: jsobject where
  "exampleSettings =
     [(''_id'', JStr ''0''),
      (''isActive'', JBool True),
      (''updatedBy'', JStr ''a1''),
      (''backgroundImage'', JObj [(''url'', JStr ''old.jpg''), (''fileId'', JStr ''bg/old'')]),
      (''heroSectionText'',
         JObj [(''title'', JStr ''Old''), (''subtitle'', JStr ''S''), (''buttonText'', JStr ''B'')]),
      (''menuChildWithImage'',
         JArr [JObj [(''title'', JStr ''Soup''), (''content'', JStr ''hot''), (''price'', JNum 5),
                     (''image'', JObj [(''url'', JNull), (''fileId'', JNull)])],
               JObj [(''title'', JStr ''Cake''), (''content'', JStr ''sweet''), (''price'', JNum 7),
                     (''image'', JObj [(''url'', JNull), (''fileId'', JNull)])]])]"

definition exampleWorld :: world where
  "exampleWorld =
     \<lparr> siteSettings = [exampleSettings],
       admins = [\<lparr> admin_id = ''a1'', name = ''Ada'', email = ''ada@example.com'',
                    password = ''hash:Secret#1'', active = True, lastLoginAt = None \<rparr>,
                 \<lparr> admin_id = ''a2'', name = ''Bob'', email = ''bob@example.com'',
                    password = ''hash:Secret#2'', active = False, lastLoginAt = None \<rparr>],
       effects = [],
       now = 1000 \<rparr>"

definition exampleFile :: UploadedFile where
  "exampleFile =
     \<lparr> file_name = ''new.png'', mimetype = ''image/png'', file_size = 2048,
       file_data = Some ''bytes'' \<rparr>"

section \<open>Pagination metadata: properties\<close>

lemma ceil_bounds:
  assumes "0 < (l::int)"
  shows "t \<le> \<lceil>real_of_int t / real_of_int l\<rceil> * l"
    and "(\<lceil>real_of_int t / real_of_int l\<rceil> - 1) * l < t"
proof -
  let ?c = "\<lceil>real_of_int t / real_of_int l\<rceil>"
  have lr: "0 < real_of_int l" using assms by simp
  have "real_of_int t \<le> real_of_int ?c * real_of_int l"
    using le_of_int_ceiling [of "real_of_int t / real_of_int l"] lr
    by (simp only: pos_divide_le_eq)
  then have "real_of_int t \<le> real_of_int (?c * l)" by simp
  then show "t \<le> ?c * l" by (simp only: of_int_le_iff)
  have "real_of_int ?c - 1 < real_of_int t / real_of_int l"
    using ceiling_correct [of "real_of_int t / real_of_int l"] by simp
  then have "(real_of_int ?c - 1) * real_of_int l < real_of_int t"
    using lr by (simp only: pos_less_divide_eq)
  then have "real_of_int ((?c - 1) * l) < real_of_int t" by simp
  then show "(?c - 1) * l < t" by (simp only: of_int_less_iff)
qed

lemma ceil_div:
  assumes "0 < (l::int)"
  shows "\<lceil>real_of_int t / real_of_int l\<rceil> = (t + l - 1) div l"
proof -
  let ?c = "\<lceil>real_of_int t / real_of_int l\<rceil>"
  let ?r = "t + l - 1 - l * ?c"
  have up: "t \<le> ?c * l" and low: "(?c - 1) * l < t"
    using ceil_bounds [OF assms, of t] by simp_all
  have r0: "0 \<le> ?r" using low by (simp add: algebra_simps)
  have r1: "?r < l" using up by (simp add: algebra_simps)
  have "t + l - 1 = l * ?c + ?r" by simp
  then have "(t + l - 1) div l = ?c" using r0 r1 by (rule int_div_pos_eq)
  then show ?thesis by simp
qed

text \<open>
  Claim C2. For all \<open>total \<ge> 0\<close>, \<open>limit \<ge> 1\<close> and \<open>page \<ge> 1\<close>, \<open>getPaginationMeta\<close>
  returns exactly the six fields, with \<open>totalPages\<close> the ceiling of \<open>total / limit\<close> (the
  least number of pages of \<open>limit\<close> entries that hold \<open>total\<close> entries, in integer terms
  \<open>(total + limit - 1) div limit\<close>), \<open>hasNextPage\<close> true iff \<open>page < totalPages\<close> and
  \<open>hasPrevPage\<close> true iff \<open>page > 1\<close>; and \<open>getPaginationMeta(25, 2, 10)\<close> is
  \<open>{total: 25, page: 2, limit: 10, totalPages: 3, hasNextPage: true, hasPrevPage: true}\<close>.
  Being a function of its three arguments, the result depends on nothing else.
\<close>

theorem getPaginationMeta_correct:
  assumes "0 \<le> t" and "1 \<le> l" and "1 \<le> p"
  shows "getPaginationMeta t p l =
           \<lparr> total = t, page = p, limit = l, totalPages = \<lceil>real_of_int t / real_of_int l\<rceil>,
             hasNextPage = (p < \<lceil>real_of_int t / real_of_int l\<rceil>), hasPrevPage = (p > 1) \<rparr>
         \<and> totalPages (getPaginationMeta t p l) = (t + l - 1) div l
         \<and> t \<le> totalPages (getPaginationMeta t p l) * l
         \<and> (totalPages (getPaginationMeta t p l) - 1) * l < t
         \<and> getPaginationMeta 25 2 10 =
           \<lparr> total = 25, page = 2, limit = 10, totalPages = 3,
             hasNextPage = True, hasPrevPage = True \<rparr>"
proof -
  have l0: "0 < l" using assms by simp
  have ex: "getPaginationMeta 25 2 10 =
           \<lparr> total = 25, page = 2, limit = 10, totalPages = 3,
             hasNextPage = True, hasPrevPage = True \<rparr>"
    by (simp add: getPaginationMeta_def Let_def)
  show ?thesis
    using ceil_bounds [OF l0, of t] ceil_div [OF l0, of t] ex
    by (simp add: getPaginationMeta_def Let_def)
qed

theorem getPaginationMeta_correct_witness:
  "(0::int) \<le> 25 \<and> (1::int) \<le> 10 \<and> (1::int) \<le> 2
   \<and> totalPages (getPaginationMeta 25 2 10) = 3
   \<and> hasNextPage (getPaginationMeta 25 2 10) \<and> hasPrevPage (getPaginationMeta 25 2 10)
   \<and> 25 \<le> totalPages (getPaginationMeta 25 2 10) * 10
   \<and> (totalPages (getPaginationMeta 25 2 10) - 1) * 10 < 25"
  using getPaginationMeta_correct [of 25 10 2] by simp

text \<open>
  Claim C3, as stated: for every \<open>page \<ge> 1\<close> and \<open>limit \<ge> 1\<close>,
  \<open>getPaginationMeta(0, page, limit)\<close> has \<open>totalPages = 0\<close> and both flags false. It fails
  at \<open>page = 2\<close>: \<open>hasPrevPage\<close> is \<open>page > 1\<close> whatever the total.
\<close>

theorem getPaginationMeta_empty_counterexample:
  "(1::int) \<le> 2 \<and> (1::int) \<le> 10
   \<and> \<not> (totalPages (getPaginationMeta 0 2 10) = 0
        \<and> hasNextPage (getPaginationMeta 0 2 10) = False
        \<and> hasPrevPage (getPaginationMeta 0 2 10) = False)"
  by (simp add: getPaginationMeta_def Let_def)

text \<open>
  Claim C3, amended: for every \<open>page \<ge> 1\<close> and \<open>limit \<ge> 1\<close>,
  \<open>getPaginationMeta(0, page, limit)\<close> has \<open>totalPages = 0\<close> and \<open>hasNextPage = false\<close>
  regardless of \<open>page\<close>, while \<open>hasPrevPage\<close> is \<open>page > 1\<close>: false on the first page only.
\<close>

theorem getPaginationMeta_empty:
  assumes "1 \<le> p" and "1 \<le> l"
  shows "totalPages (getPaginationMeta 0 p l) = 0
         \<and> hasNextPage (getPaginationMeta 0 p l) = False
         \<and> hasPrevPage (getPaginationMeta 0 p l) = (p > 1)"
  using assms by (simp add: getPaginationMeta_def Let_def)

theorem getPaginationMeta_empty_witness:
  "(1::int) \<le> 1 \<and> (1::int) \<le> 10
   \<and> totalPages (getPaginationMeta 0 1 10) = 0
   \<and> hasNextPage (getPaginationMeta 0 1 10) = False
   \<and> hasPrevPage (getPaginationMeta 0 1 10) = False"
  using getPaginationMeta_empty [of 1 10] by simp

section \<open>Properties of the JavaScript values\<close>

lemma getProp_setProp: "getProp (setProp obj k v) k' = (if k' = k then v else getProp obj k')"
  by (simp add: getProp_def setProp_def update_conv')

lemma getProp_Nil [simp]: "getProp [] k = JUndefined"
  by (simp add: getProp_def)

lemma set_objectKeys [simp]: "set (objectKeys obj) = fst ` set obj"
  by (simp add: objectKeys_def)

lemma distinct_objectKeys [simp]: "distinct (objectKeys obj)"
  by (simp add: objectKeys_def)










section \<open>Properties of the store\<close>

lemma findIndex_SomeD: "findIndex P xs = Some i \<Longrightarrow> i < length xs \<and> P (xs ! i)"
  by (induction xs arbitrary: i) (auto split: if_splits)

lemma findOneActive_SomeD:
  "findOneActive db = Some (i, s) \<Longrightarrow> i < length db \<and> db ! i = s \<and> isActiveDoc s"
  by (auto simp: findOneActive_def dest: findIndex_SomeD)

lemma saveDoc_eq [simp]: "saveDoc i d db = db[i := d]"
  by (simp add: saveDoc_def preSave_def)

lemma saveAndPopulate_eq:
  "saveAndPopulate adminId i s w =
     (Inr (populate (admins w) (setProp s ''updatedBy'' (JStr adminId))),
      w\<lparr> siteSettings := (siteSettings w)[i := setProp s ''updatedBy'' (JStr adminId)] \<rparr>)"
  by (simp add: saveAndPopulate_def Let_def)

lemma getProp_populate: "k \<noteq> ''updatedBy'' \<Longrightarrow> getProp (populate as d) k = getProp d k"
  by (simp add: populate_def getProp_setProp)

lemma findOneActive_example: "findOneActive (siteSettings exampleWorld) = Some (0, exampleSettings)"
  by (simp add: exampleWorld_def exampleSettings_def findOneActive_def isActiveDoc_def getProp_def)

section \<open>updateSiteSettings: properties\<close>



























section \<open>restoreSiteSettings: properties\<close>

lemma deactivate_idem [simp]: "deactivate (deactivate d) = deactivate d"
  by (simp add: deactivate_def setProp_def)

lemma isActiveDoc_deactivate [simp]: "\<not> isActiveDoc (deactivate d)"
  by (simp add: isActiveDoc_def deactivate_def getProp_setProp)

lemma preSave_deactivated: "preSave isNew d (map deactivate db) = map deactivate db"
  by (simp add: preSave_def)

lemma findById_SomeD: "findById sid db = Some d \<Longrightarrow> d \<in> set db \<and> getProp d ''_id'' = JStr sid"
  by (auto simp: findById_def find_Some_iff)

lemma restoreSiteSettings_found:
  assumes "findById settingsId (siteSettings w) = Some target"
  shows "restoreSiteSettings e adminId settingsId w =
           (let restored =
                  [(''backgroundImage'', getProp target ''backgroundImage''),
                   (''heroSectionText'', getProp target ''heroSectionText''),
                   (''aboutSectionText'', getProp target ''aboutSectionText''),
                   (''contactInfo'', getProp target ''contactInfo''),
                   (''socialMedia'', getProp target ''socialMedia''),
                   (''updatedBy'', JStr adminId),
                   (''isActive'', JBool True),
                   (''_id'', JStr (objectId e (length (siteSettings w))))]
            in (Inr (populate (admins w) restored),
                w\<lparr> siteSettings := map deactivate (siteSettings w) @ [restored] \<rparr>))"
  using assms
  by (simp add: restoreSiteSettings_def createDoc_def Let_def preSave_deactivated setProp_def getProp_def)

lemma findById_example:
  "findById ''0'' (siteSettings exampleWorld) = Some exampleSettings"
  "findById ''7'' (siteSettings exampleWorld) = None"
  by (simp_all add: findById_def exampleWorld_def exampleSettings_def getProp_def)

text \<open>
  Claim C6. \<open>restoreSiteSettings(adminId, targetId)\<close> fails with the 404 error
  "Settings version not found", changing nothing, when no record has the id. When the target
  exists, every stored record is deactivated and one new record is appended: it is active,
  its \<open>updatedBy\<close> is \<open>adminId\<close>, it carries the target's background image, hero text, about
  text, contact info and social links, and it has no menu child items (no field besides
  these five, \<open>updatedBy\<close>, \<open>isActive\<close> and \<open>_id\<close>), whatever the target's menu holds. The
  call returns the new record with \<open>updatedBy\<close> populated.
\<close>

theorem restoreSiteSettings_correct:
  "(findById settingsId (siteSettings w) = None \<longrightarrow>
      restoreSiteSettings e adminId settingsId w
        = (Inl (AppError ''Settings version not found'' 404), w))
   \<and> (\<forall>target. findById settingsId (siteSettings w) = Some target \<longrightarrow>
        (\<exists>restored.
            restoreSiteSettings e adminId settingsId w
              = (Inr (populate (admins w) restored),
                 w\<lparr> siteSettings := map deactivate (siteSettings w) @ [restored] \<rparr>)
          \<and> getProp restored ''isActive'' = JBool True
          \<and> getProp restored ''updatedBy'' = JStr adminId
          \<and> getProp restored ''backgroundImage'' = getProp target ''backgroundImage''
          \<and> getProp restored ''heroSectionText'' = getProp target ''heroSectionText''
          \<and> getProp restored ''aboutSectionText'' = getProp target ''aboutSectionText''
          \<and> getProp restored ''contactInfo'' = getProp target ''contactInfo''
          \<and> getProp restored ''socialMedia'' = getProp target ''socialMedia''
          \<and> getProp restored ''menuChildWithImage'' = JUndefined
          \<and> getProp restored ''menuChildItems'' = JUndefined
          \<and> fst ` set restored =
                {''backgroundImage'', ''heroSectionText'', ''aboutSectionText'', ''contactInfo'',
                 ''socialMedia'', ''updatedBy'', ''isActive'', ''_id''}))"
proof (intro conjI allI impI)
  assume "findById settingsId (siteSettings w) = None"
  then show "restoreSiteSettings e adminId settingsId w
        = (Inl (AppError ''Settings version not found'' 404), w)"
    by (simp add: restoreSiteSettings_def)
next
  fix target
  assume t: "findById settingsId (siteSettings w) = Some target"
  show "\<exists>restored.
            restoreSiteSettings e adminId settingsId w
              = (Inr (populate (admins w) restored),
                 w\<lparr> siteSettings := map deactivate (siteSettings w) @ [restored] \<rparr>)
          \<and> getProp restored ''isActive'' = JBool True
          \<and> getProp restored ''updatedBy'' = JStr adminId
          \<and> getProp restored ''backgroundImage'' = getProp target ''backgroundImage''
          \<and> getProp restored ''heroSectionText'' = getProp target ''heroSectionText''
          \<and> getProp restored ''aboutSectionText'' = getProp target ''aboutSectionText''
          \<and> getProp restored ''contactInfo'' = getProp target ''contactInfo''
          \<and> getProp restored ''socialMedia'' = getProp target ''socialMedia''
          \<and> getProp restored ''menuChildWithImage'' = JUndefined
          \<and> getProp restored ''menuChildItems'' = JUndefined
          \<and> fst ` set restored =
                {''backgroundImage'', ''heroSectionText'', ''aboutSectionText'', ''contactInfo'',
                 ''socialMedia'', ''updatedBy'', ''isActive'', ''_id''}"
    unfolding restoreSiteSettings_found [OF t] Let_def
    by (rule exI [of _ "[(''backgroundImage'', getProp target ''backgroundImage''),
                   (''heroSectionText'', getProp target ''heroSectionText''),
                   (''aboutSectionText'', getProp target ''aboutSectionText''),
                   (''contactInfo'', getProp target ''contactInfo''),
                   (''socialMedia'', getProp target ''socialMedia''),
                   (''updatedBy'', JStr adminId),
                   (''isActive'', JBool True),
                   (''_id'', JStr (objectId e (length (siteSettings w))))]"])
       (simp add: getProp_def)
qed

theorem restoreSiteSettings_correct_witness:
  "findById ''7'' (siteSettings exampleWorld) = None
   \<and> restoreSiteSettings exampleEnv ''a1'' ''7'' exampleWorld
        = (Inl (AppError ''Settings version not found'' 404), exampleWorld)
   \<and> findById ''0'' (siteSettings exampleWorld) = Some exampleSettings
   \<and> truthy (jsIndex (getProp exampleSettings ''menuChildWithImage'') 0)
   \<and> (\<exists>restored.
          restoreSiteSettings exampleEnv ''a1'' ''0'' exampleWorld
            = (Inr (populate (admins exampleWorld) restored),
               exampleWorld\<lparr> siteSettings := map deactivate (siteSettings exampleWorld) @ [restored] \<rparr>)
        \<and> getProp restored ''isActive'' = JBool True
        \<and> getProp restored ''updatedBy'' = JStr ''a1''
        \<and> getProp restored ''backgroundImage''
            = JObj [(''url'', JStr ''old.jpg''), (''fileId'', JStr ''bg/old'')]
        \<and> getProp restored ''heroSectionText''
            = JObj [(''title'', JStr ''Old''), (''subtitle'', JStr ''S''), (''buttonText'', JStr ''B'')]
        \<and> getProp restored ''menuChildWithImage'' = JUndefined)"
proof -
  have m: "truthy (jsIndex (getProp exampleSettings ''menuChildWithImage'') 0)"
    by (simp add: getProp_def exampleSettings_def)
  have g: "getProp exampleSettings ''backgroundImage''
            = JObj [(''url'', JStr ''old.jpg''), (''fileId'', JStr ''bg/old'')]"
          "getProp exampleSettings ''heroSectionText''
            = JObj [(''title'', JStr ''Old''), (''subtitle'', JStr ''S''), (''buttonText'', JStr ''B'')]"
    by (simp_all add: getProp_def exampleSettings_def)
  note inst1 = restoreSiteSettings_correct [of "''7''" exampleWorld exampleEnv "''a1''"]
  note inst2 = restoreSiteSettings_correct [of "''0''" exampleWorld exampleEnv "''a1''"]
  from inst1 findById_example(2) have a:
    "restoreSiteSettings exampleEnv ''a1'' ''7'' exampleWorld
        = (Inl (AppError ''Settings version not found'' 404), exampleWorld)"
    by blast
  from inst2 findById_example(1) obtain restored where
    "restoreSiteSettings exampleEnv ''a1'' ''0'' exampleWorld
            = (Inr (populate (admins exampleWorld) restored),
               exampleWorld\<lparr> siteSettings := map deactivate (siteSettings exampleWorld) @ [restored] \<rparr>)"
    "getProp restored ''isActive'' = JBool True"
    "getProp restored ''updatedBy'' = JStr ''a1''"
    "getProp restored ''backgroundImage'' = getProp exampleSettings ''backgroundImage''"
    "getProp restored ''heroSectionText'' = getProp exampleSettings ''heroSectionText''"
    "getProp restored ''menuChildWithImage'' = JUndefined"
    by blast
  then have b: "\<exists>restored.
          restoreSiteSettings exampleEnv ''a1'' ''0'' exampleWorld
            = (Inr (populate (admins exampleWorld) restored),
               exampleWorld\<lparr> siteSettings := map deactivate (siteSettings exampleWorld) @ [restored] \<rparr>)
        \<and> getProp restored ''isActive'' = JBool True
        \<and> getProp restored ''updatedBy'' = JStr ''a1''
        \<and> getProp restored ''backgroundImage''
            = JObj [(''url'', JStr ''old.jpg''), (''fileId'', JStr ''bg/old'')]
        \<and> getProp restored ''heroSectionText''
            = JObj [(''title'', JStr ''Old''), (''subtitle'', JStr ''S''), (''buttonText'', JStr ''B'')]
        \<and> getProp restored ''menuChildWithImage'' = JUndefined"
    unfolding g by blast
  from findById_example a m b show ?thesis by blast
qed

section \<open>Image replacement: properties\<close>

lemma uploadImage_ok:
  assumes "mimetype f \<in> set allowedTypes" and "file_name f \<noteq> []" and "0 < file_size f"
      and "file_size f \<le> maxFileSize e" and "file_data f \<noteq> None"
      and "upload e f folder = Inr (newUrl, newId)"
  shows "uploadImage e f folder w =
           (Inr \<lparr> url = newUrl, fileId = newId \<rparr>, w\<lparr> effects := effects w @ [CloudUpload f folder] \<rparr>)"
proof -
  have "mimetype f \<noteq> []" using assms(1) by (auto simp: allowedTypes_def)
  then show ?thesis using assms by (simp add: uploadImage_def Let_def)
qed

lemma deleteImage_fails:
  assumes "truthy previous" and "destroy e previous = Some message"
  shows "deleteImage e previous w =
           w\<lparr> effects := effects w @ [ConsoleError (''Failed to delete image from Cloudinary: '' @ message)] \<rparr>"
  using assms by (simp add: deleteImage_def)

text \<open>
  Claim C7. In a background-image replace on an active record whose background image has a
  \<open>fileId\<close>, when the Object Store delete of that asset fails, the failure is only written
  to the console: for a file that passes the upload checks and that Cloudinary accepts, the
  new image is uploaded after the failed delete, the record is persisted with the new
  \<open>{url, fileId}\<close>, and the operation returns the record.
\<close>

theorem updateBackgroundImage_delete_failure_swallowed:
  assumes "findOneActive (siteSettings w) = Some (i, settings)"
      and "jsGet (getProp settings ''backgroundImage'') ''fileId'' = previous"
      and "truthy previous"
      and "destroy e previous = Some message"
      and "mimetype f \<in> set allowedTypes" and "file_name f \<noteq> []" and "0 < file_size f"
      and "file_size f \<le> maxFileSize e" and "file_data f \<noteq> None"
      and "upload e f ''caterine/backgrounds'' = Inr (newUrl, newId)"
  shows "let newImage = JObj [(''url'', JStr newUrl), (''fileId'', JStr newId)];
             persisted = setProp (setProp settings ''backgroundImage'' newImage)
                           ''updatedBy'' (JStr adminId)
         in updateBackgroundImage e adminId (OneFile f) w =
              (Inr (populate (admins w) persisted),
               w\<lparr> siteSettings := (siteSettings w)[i := persisted],
                   effects := effects w @
                     [ConsoleError (''Failed to delete image from Cloudinary: '' @ message),
                      CloudUpload f ''caterine/backgrounds''] \<rparr>)
          \<and> i < length (siteSettings w)
          \<and> getProp persisted ''backgroundImage'' = newImage
          \<and> getProp (populate (admins w) persisted) ''backgroundImage'' = newImage
          \<and> getProp persisted ''updatedBy'' = JStr adminId"
proof -
  let ?w1 = "w\<lparr> effects := effects w @ [ConsoleError (''Failed to delete image from Cloudinary: '' @ message)] \<rparr>"
  have i: "i < length (siteSettings w)" using assms(1) by (auto dest: findOneActive_SomeD)
  have d: "deleteImage e previous w = ?w1"
    using assms(3,4) by (rule deleteImage_fails)
  note u = uploadImage_ok [OF assms(5-10)]
  show ?thesis
    using assms(1,2,3) i
    by (simp add: updateBackgroundImage_def updateImageField_def validateImageFile_def Let_def d u
          saveAndPopulate_eq imageValue_def getProp_setProp getProp_populate)
qed

theorem updateBackgroundImage_delete_failure_swallowed_witness:
  "findOneActive (siteSettings exampleWorld) = Some (0, exampleSettings)
   \<and> jsGet (getProp exampleSettings ''backgroundImage'') ''fileId'' = JStr ''bg/old''
   \<and> truthy (JStr ''bg/old'')
   \<and> destroy exampleEnv (JStr ''bg/old'') = Some ''timeout''
   \<and> mimetype exampleFile \<in> set allowedTypes \<and> file_name exampleFile \<noteq> []
   \<and> 0 < file_size exampleFile \<and> file_size exampleFile \<le> maxFileSize exampleEnv
   \<and> file_data exampleFile \<noteq> None
   \<and> upload exampleEnv exampleFile ''caterine/backgrounds''
        = Inr (''https://cdn.example/caterine/backgrounds/new.png'', ''caterine/backgrounds/new.png'')
   \<and> (\<exists>returned w'.
         updateBackgroundImage exampleEnv ''a1'' (OneFile exampleFile) exampleWorld = (Inr returned, w')
       \<and> getProp (siteSettings w' ! 0) ''backgroundImage''
            = JObj [(''url'', JStr ''https://cdn.example/caterine/backgrounds/new.png''),
                    (''fileId'', JStr ''caterine/backgrounds/new.png'')]
       \<and> effects w' = [ConsoleError ''Failed to delete image from Cloudinary: timeout'',
                        CloudUpload exampleFile ''caterine/backgrounds''])"
proof -
  have h2: "jsGet (getProp exampleSettings ''backgroundImage'') ''fileId'' = JStr ''bg/old''"
    by (simp add: getProp_def exampleSettings_def)
  have h3: "truthy (JStr ''bg/old'')" by simp
  have h4: "destroy exampleEnv (JStr ''bg/old'') = Some ''timeout''" by (simp add: exampleEnv_def)
  have h5: "mimetype exampleFile \<in> set allowedTypes" by (simp add: exampleFile_def allowedTypes_def)
  have h6: "file_name exampleFile \<noteq> []" by (simp add: exampleFile_def)
  have h7: "0 < file_size exampleFile" by (simp add: exampleFile_def)
  have h8: "file_size exampleFile \<le> maxFileSize exampleEnv" by (simp add: exampleFile_def exampleEnv_def)
  have h9: "file_data exampleFile \<noteq> None" by (simp add: exampleFile_def)
  have h10: "upload exampleEnv exampleFile ''caterine/backgrounds''
        = Inr (''https://cdn.example/caterine/backgrounds/new.png'', ''caterine/backgrounds/new.png'')"
    by (simp add: exampleFile_def exampleEnv_def)
  have e0: "effects exampleWorld = []" by (simp add: exampleWorld_def)
  note inst = updateBackgroundImage_delete_failure_swallowed
                [OF findOneActive_example h2 h3 h4 h5 h6 h7 h8 h9 h10, of "''a1''", unfolded Let_def]
  from inst have "\<exists>returned w'.
         updateBackgroundImage exampleEnv ''a1'' (OneFile exampleFile) exampleWorld = (Inr returned, w')
       \<and> getProp (siteSettings w' ! 0) ''backgroundImage''
            = JObj [(''url'', JStr ''https://cdn.example/caterine/backgrounds/new.png''),
                    (''fileId'', JStr ''caterine/backgrounds/new.png'')]
       \<and> effects w' = [ConsoleError ''Failed to delete image from Cloudinary: timeout'',
                        CloudUpload exampleFile ''caterine/backgrounds'']"
    by (simp add: e0)
  with findOneActive_example h2 h3 h4 h5 h6 h7 h8 h9 h10 show ?thesis by blast
qed

section \<open>Menu child items: properties\<close>

lemma menuItemMissing_out_of_range:
  assumes "(\<exists>items. getProp settings ''menuChildWithImage'' = JArr items \<and> int (length items) \<le> itemIndex)
           \<or> getProp settings ''menuChildWithImage'' = JUndefined
           \<or> getProp settings ''menuChildWithImage'' = JNull"
  shows "menuItemMissing settings itemIndex"
  using assms by (auto simp: menuItemMissing_def)

text \<open>
  Claim C8. On an active settings record whose menu child item list has length \<open>n\<close>,
  \<open>updateMenuChildItem\<close> and \<open>deleteMenuChildItem\<close> with an index \<open>i \<ge> n\<close>, or with no menu
  list present (undefined or null), fail with the 404 error "Menu item not found" and leave
  the whole state, the settings record included, as it was. The example of the claim
  (index 5 on a record with 2 items) is the witness.
\<close>

theorem menu_index_out_of_range:
  assumes "findOneActive (siteSettings w) = Some (i, settings)"
      and "(\<exists>items. getProp settings ''menuChildWithImage'' = JArr items \<and> int (length items) \<le> itemIndex)
           \<or> getProp settings ''menuChildWithImage'' = JUndefined
           \<or> getProp settings ''menuChildWithImage'' = JNull"
  shows "updateMenuChildItem e adminId itemIndex itemData w
           = (Inl (AppError ''Menu item not found'' 404), w)
       \<and> deleteMenuChildItem e adminId itemIndex w
           = (Inl (AppError ''Menu item not found'' 404), w)"
  using assms(1) menuItemMissing_out_of_range [OF assms(2)]
  by (simp add: updateMenuChildItem_def deleteMenuChildItem_def)

theorem menu_index_out_of_range_witness:
  "findOneActive (siteSettings exampleWorld) = Some (0, exampleSettings)
   \<and> (\<exists>items. getProp exampleSettings ''menuChildWithImage'' = JArr items
               \<and> length items = 2 \<and> int (length items) \<le> 5)
   \<and> updateMenuChildItem exampleEnv ''a1'' 5 [(''title'', JStr ''Stew'')] exampleWorld
           = (Inl (AppError ''Menu item not found'' 404), exampleWorld)
   \<and> deleteMenuChildItem exampleEnv ''a1'' 5 exampleWorld
           = (Inl (AppError ''Menu item not found'' 404), exampleWorld)"
proof -
  have m: "\<exists>items. getProp exampleSettings ''menuChildWithImage'' = JArr items
               \<and> length items = 2 \<and> int (length items) \<le> 5"
    by (simp add: getProp_def exampleSettings_def)
  then have h: "(\<exists>items. getProp exampleSettings ''menuChildWithImage'' = JArr items \<and> int (length items) \<le> 5)
           \<or> getProp exampleSettings ''menuChildWithImage'' = JUndefined
           \<or> getProp exampleSettings ''menuChildWithImage'' = JNull"
    by blast
  from menu_index_out_of_range [OF findOneActive_example h, of exampleEnv "''a1''"]
       findOneActive_example m
  show ?thesis by blast
qed

section \<open>Login: properties\<close>

lemma findIndex_None_iff: "findIndex P xs = None \<longleftrightarrow> (\<forall>x \<in> set xs. \<not> P x)"
  by (induction xs) auto

lemma findIndex_first:
  "i < length xs \<Longrightarrow> P (xs ! i) \<Longrightarrow> (\<forall>j < i. \<not> P (xs ! j)) \<Longrightarrow> findIndex P xs = Some i"
proof (induction xs arbitrary: i)
  case Nil
  then show ?case by simp
next
  case (Cons x xs)
  show ?case
  proof (cases i)
    case 0
    then show ?thesis using Cons.prems by simp
  next
    case (Suc k)
    have nx: "\<not> P x" using Cons.prems(3) Suc by auto
    have "findIndex P xs = Some k"
    proof (rule Cons.IH)
      show "k < length xs" using Cons.prems(1) Suc by simp
      show "P (xs ! k)" using Cons.prems(2) Suc by simp
      show "\<forall>j<k. \<not> P (xs ! j)"
      proof (intro allI impI)
        fix j assume "j < k"
        then have "Suc j < i" using Suc by simp
        then have "\<not> P ((x # xs) ! Suc j)" using Cons.prems(3) by blast
        then show "\<not> P (xs ! j)" by simp
      qed
    qed
    then show ?thesis using nx Suc by simp
  qed
qed

lemma unique_email_index:
  assumes "distinct (map email as)" and "i < length as" and "j < length as"
      and "email (as ! j) = email (as ! i)"
  shows "j = i"
proof -
  have "map email as ! j = map email as ! i" using assms by simp
  then show ?thesis
    using nth_eq_iff_index_eq [OF assms(1), of j i] assms(2,3) by simp
qed

text \<open>
  Claim C9. With admin emails unique (the schema's unique index), a login with the email
  of an active admin and a password that \<open>bcrypt.compare\<close> accepts is answered with status
  200, the token that \<open>jwt.sign\<close> issues for the admin's id (non-empty when \<open>jwt.sign\<close>'s
  result is) and the admin's data, and the stored admin's \<open>lastLoginAt\<close> becomes the
  current time. For an admin whose \<open>active\<close> flag is false the login fails with the 401
  error "Incorrect email or password" whatever the password, and the state, \<open>lastLoginAt\<close>
  included, is unchanged.
\<close>

theorem login_correct:
  assumes "distinct (map email (admins w))"
      and "i < length (admins w)" and "admins w ! i = admin"
      and "email admin = cred_email credentials"
  shows "(active admin \<and> bcryptCompare e (cred_password credentials) (password admin)
            \<and> jwtSign e (admin_id admin) \<noteq> [] \<longrightarrow>
           (\<exists>resp w'.
               login e credentials w = (Inr resp, w')
             \<and> status resp = 200
             \<and> token resp = jwtSign e (admin_id admin) \<and> token resp \<noteq> []
             \<and> resp_id resp = admin_id admin \<and> resp_name resp = name admin
             \<and> resp_email resp = email admin \<and> resp_lastLoginAt resp = Some (now w)
             \<and> admins w' = (admins w)[i := admin\<lparr> lastLoginAt := Some (now w) \<rparr>]
             \<and> lastLoginAt (admins w' ! i) = Some (now w)))
       \<and> (\<not> active admin \<longrightarrow>
             login e credentials w = (Inl (AppError ''Incorrect email or password'' 401), w)
           \<and> loginAdmin e credentials w = (Inl (AppError ''Incorrect email or password'' 401), w))"
proof (intro conjI impI)
  assume a: "active admin \<and> bcryptCompare e (cred_password credentials) (password admin)
            \<and> jwtSign e (admin_id admin) \<noteq> []"
  let ?P = "\<lambda>a. email a = cred_email credentials \<and> active a"
  have "\<forall>j<i. \<not> ?P (admins w ! j)"
  proof (intro allI impI)
    fix j assume j: "j < i"
    show "\<not> ?P (admins w ! j)"
    proof
      assume "?P (admins w ! j)"
      then have "email (admins w ! j) = email (admins w ! i)" using assms(3,4) by simp
      then have "j = i" using assms(1,2) j by (intro unique_email_index) auto
      then show False using j by simp
    qed
  qed
  then have f: "findIndex ?P (admins w) = Some i"
    using assms(2,3,4) a by (intro findIndex_first) auto
  show "\<exists>resp w'.
               login e credentials w = (Inr resp, w')
             \<and> status resp = 200
             \<and> token resp = jwtSign e (admin_id admin) \<and> token resp \<noteq> []
             \<and> resp_id resp = admin_id admin \<and> resp_name resp = name admin
             \<and> resp_email resp = email admin \<and> resp_lastLoginAt resp = Some (now w)
             \<and> admins w' = (admins w)[i := admin\<lparr> lastLoginAt := Some (now w) \<rparr>]
             \<and> lastLoginAt (admins w' ! i) = Some (now w)"
    using a assms(2,3) by (simp add: login_def loginAdmin_def f Let_def)
next
  assume n: "\<not> active admin"
  let ?P = "\<lambda>a. email a = cred_email credentials \<and> active a"
  have "\<forall>a \<in> set (admins w). \<not> ?P a"
  proof
    fix a assume "a \<in> set (admins w)"
    then obtain j where j: "j < length (admins w)" "admins w ! j = a"
      by (auto simp: in_set_conv_nth)
    show "\<not> ?P a"
    proof
      assume p: "?P a"
      then have "email (admins w ! j) = email (admins w ! i)" using assms(3,4) j by simp
      then have "j = i" using assms(1,2) j by (intro unique_email_index) auto
      then show False using p n j assms(3) by simp
    qed
  qed
  then have f: "findIndex ?P (admins w) = None" by (simp add: findIndex_None_iff)
  show "login e credentials w = (Inl (AppError ''Incorrect email or password'' 401), w)"
    by (simp add: login_def loginAdmin_def f)
  show "loginAdmin e credentials w = (Inl (AppError ''Incorrect email or password'' 401), w)"
    by (simp add: loginAdmin_def f)
qed

theorem login_correct_witness:
  "distinct (map email (admins exampleWorld))
   \<and> 0 < length (admins exampleWorld) \<and> 1 < length (admins exampleWorld)
   \<and> email (admins exampleWorld ! 0) = ''ada@example.com''
   \<and> active (admins exampleWorld ! 0)
   \<and> bcryptCompare exampleEnv ''Secret#1'' (password (admins exampleWorld ! 0))
   \<and> jwtSign exampleEnv (admin_id (admins exampleWorld ! 0)) \<noteq> []
   \<and> (\<exists>resp w'.
         login exampleEnv \<lparr> cred_email = ''ada@example.com'', cred_password = ''Secret#1'' \<rparr> exampleWorld
           = (Inr resp, w')
       \<and> status resp = 200 \<and> token resp = ''header.a1.signature'' \<and> token resp \<noteq> []
       \<and> lastLoginAt (admins w' ! 0) = Some 1000)
   \<and> email (admins exampleWorld ! 1) = ''bob@example.com''
   \<and> \<not> active (admins exampleWorld ! 1)
   \<and> bcryptCompare exampleEnv ''Secret#2'' (password (admins exampleWorld ! 1))
   \<and> login exampleEnv \<lparr> cred_email = ''bob@example.com'', cred_password = ''Secret#2'' \<rparr> exampleWorld
        = (Inl (AppError ''Incorrect email or password'' 401), exampleWorld)"
proof -
  let ?ada = "\<lparr> cred_email = ''ada@example.com'', cred_password = ''Secret#1'' \<rparr>"
  let ?bob = "\<lparr> cred_email = ''bob@example.com'', cred_password = ''Secret#2'' \<rparr>"
  have d: "distinct (map email (admins exampleWorld))" by (simp add: exampleWorld_def)
  have l: "0 < length (admins exampleWorld)" "1 < length (admins exampleWorld)"
    by (simp_all add: exampleWorld_def)
  have a: "email (admins exampleWorld ! 0) = cred_email ?ada"
          "active (admins exampleWorld ! 0)"
          "bcryptCompare exampleEnv (cred_password ?ada) (password (admins exampleWorld ! 0))"
          "jwtSign exampleEnv (admin_id (admins exampleWorld ! 0)) \<noteq> []"
          "jwtSign exampleEnv (admin_id (admins exampleWorld ! 0)) = ''header.a1.signature''"
          "now exampleWorld = 1000"
    by (simp_all add: exampleWorld_def exampleEnv_def)
  have b: "email (admins exampleWorld ! 1) = cred_email ?bob"
          "\<not> active (admins exampleWorld ! 1)"
          "bcryptCompare exampleEnv (cred_password ?bob) (password (admins exampleWorld ! 1))"
    by (simp_all add: exampleWorld_def exampleEnv_def)
  from login_correct [OF d l(1) refl a(1), of exampleEnv] a(2,3,4)
  obtain resp w' where
    "login exampleEnv ?ada exampleWorld = (Inr resp, w')"
    "status resp = 200"
    "token resp = jwtSign exampleEnv (admin_id (admins exampleWorld ! 0))" "token resp \<noteq> []"
    "lastLoginAt (admins w' ! 0) = Some (now exampleWorld)"
    by blast
  then have ok: "\<exists>resp w'.
         login exampleEnv ?ada exampleWorld = (Inr resp, w')
       \<and> status resp = 200 \<and> token resp = ''header.a1.signature'' \<and> token resp \<noteq> []
       \<and> lastLoginAt (admins w' ! 0) = Some 1000"
    unfolding a(5,6) by blast
  from login_correct [OF d l(2) refl b(1), of exampleEnv] b(2)
  have no: "login exampleEnv ?bob exampleWorld
        = (Inl (AppError ''Incorrect email or password'' 401), exampleWorld)"
    by blast
  from d l a(1,2,3,4) b ok no show ?thesis by simp
qed

section \<open>The single active record\<close>

lemma isActiveDoc_setProp: "k \<noteq> ''isActive'' \<Longrightarrow> isActiveDoc (setProp d k v) = isActiveDoc d"
  by (simp add: isActiveDoc_def getProp_setProp)



lemma siteSettings_deleteImage [simp]: "siteSettings (deleteImage e f w) = siteSettings w"
  by (simp add: deleteImage_def split: option.splits)

lemma admins_deleteImage [simp]: "admins (deleteImage e f w) = admins w"
  by (simp add: deleteImage_def split: option.splits)

















end
